theory Spec2Isabelle
  imports Main "HOL-Library.Word"
begin

unbundle bit_operations_syntax

section \<open>Values\<close>

text \<open>
  The bot handles whatever \<^verbatim>\<open>response.json()\<close> returns: a Python value built from
  \<^verbatim>\<open>None\<close>, booleans, unbounded integers, floats, strings, lists and dictionaries.
  A string is its UTF-8 byte sequence (the functions below only look for ASCII
  characters, which UTF-8 never uses inside a longer sequence); a float is its 64-bit
  IEEE pattern; a dictionary is the list of its items in insertion order. Python's
  \<^verbatim>\<open>None\<close> is \<open>JNull\<close>.
\<close>

datatype json =
    JNull
  | JBool bool
  | JInt int
  | JFloat "64 word"
  | JStr string
  | JList "json list"
  | JObj "(string \<times> json) list"

type_synonym pydict = "(string \<times> json) list"

text \<open>\<^verbatim>\<open>bool(v)\<close>: the truth value Python gives to \<open>v\<close> in \<^verbatim>\<open>if v\<close>, \<^verbatim>\<open>not v\<close>
  and \<^verbatim>\<open>v or w\<close>. A float is false when it is \<open>0.0\<close> or \<open>-0.0\<close>, that is when all
  bits but the sign are zero.\<close>

fun py_truthy :: "json \<Rightarrow> bool" where
  "py_truthy JNull = False"
| "py_truthy (JBool b) = b"
| "py_truthy (JInt i) = (i \<noteq> 0)"
| "py_truthy (JFloat w) = (w AND 0x7FFFFFFFFFFFFFFF \<noteq> 0)"
| "py_truthy (JStr s) = (s \<noteq> [])"
| "py_truthy (JList xs) = (xs \<noteq> [])"
| "py_truthy (JObj d) = (d \<noteq> [])"

text \<open>\<^verbatim>\<open>d.get(key)\<close>: the value stored under the key, \<^verbatim>\<open>None\<close> when there is none.\<close>

definition dict_get :: "pydict \<Rightarrow> string \<Rightarrow> json" where
  "dict_get d k = (case map_of d k of None \<Rightarrow> JNull | Some v \<Rightarrow> v)"

subsection \<open>Conversion to text\<close>

definition digit_char :: "nat \<Rightarrow> char" where
  "digit_char n = ''0123456789'' ! n"

fun show_nat :: "nat \<Rightarrow> string" where
  "show_nat n = (if n < 10 then [digit_char n] else show_nat (n div 10) @ [digit_char (n mod 10)])"

declare show_nat.simps [simp del]

definition show_int :: "int \<Rightarrow> string" where
  "show_int i = (if i < 0 then CHR ''-'' # show_nat (nat (- i)) else show_nat (nat i))"

text \<open>\<^verbatim>\<open>str(v)\<close>, which is also what an f-string writes for \<^verbatim>\<open>{v}\<close>. For a float, a list
  or a dictionary Python falls back to the interpreter's \<^verbatim>\<open>repr\<close>; it is not part of
  this repository and is the parameter \<open>R\<close> here.\<close>

fun py_str :: "(json \<Rightarrow> string) \<Rightarrow> json \<Rightarrow> string" where
  "py_str R (JStr s) = s"
| "py_str R JNull = ''None''"
| "py_str R (JBool b) = (if b then ''True'' else ''False'')"
| "py_str R (JInt i) = show_int i"
| "py_str R v = R v"

text \<open>\<^verbatim>\<open>html.escape(s)\<close> with its default \<^verbatim>\<open>quote=True\<close>: the five characters
  \<^verbatim>\<open>& < > " '\<close> are replaced by entities, everything else is kept.\<close>

definition escape_char :: "char \<Rightarrow> string" where
  "escape_char c =
     (if c = CHR ''&'' then ''&amp;''
      else if c = CHR ''<'' then ''&lt;''
      else if c = CHR ''>'' then ''&gt;''
      else if c = CHR 0x22 then ''&quot;''
      else if c = CHR 0x27 then ''&#x27;''
      else [c])"

definition escape :: "string \<Rightarrow> string" where
  "escape s = concat (map escape_char s)"

text \<open>\<^verbatim>\<open>sep.join(xs)\<close>.\<close>

fun py_join :: "string \<Rightarrow> string list \<Rightarrow> string" where
  "py_join sep [] = []"
| "py_join sep [x] = x"
| "py_join sep (x # y # ys) = x @ sep @ py_join sep (y # ys)"

definition nl :: string where
  "nl = [CHR 0x0A]"

section \<open>Presentation formatter\<close>

text \<open>The dictionary literal \<^verbatim>\<open>fields\<close> of \<^verbatim>\<open>format_art_info\<close>: seven labels, in the
  order the literal lists them, each with \<^verbatim>\<open>object_data.get(...)\<close>.\<close>

definition fields_dict :: "pydict \<Rightarrow> pydict" where
  "fields_dict object_data =
     [(''Title'', dict_get object_data ''title''),
      (''Artist'', dict_get object_data ''artistDisplayName''),
      (''Date'', dict_get object_data ''objectDate''),
      (''Culture'', dict_get object_data ''culture''),
      (''Period'', dict_get object_data ''period''),
      (''Medium'', dict_get object_data ''medium''),
      (''Country'', dict_get object_data ''country'')]"

text \<open>The comprehension
  \<^verbatim>\<open>[f"<b>{key}</b>: {escape(str(value))}" for key, value in fields.items() if value]\<close>.\<close>

definition info_line :: "(json \<Rightarrow> string) \<Rightarrow> string \<Rightarrow> json \<Rightarrow> string" where
  "info_line R key val = ''<b>'' @ key @ ''</b>: '' @ escape (py_str R val)"

definition info_lines :: "(json \<Rightarrow> string) \<Rightarrow> pydict \<Rightarrow> string list" where
  "info_lines R object_data =
     map (\<lambda>(key, val). info_line R key val)
       (filter (\<lambda>(key, val). py_truthy val) (fields_dict object_data))"

text \<open>The entry appended for a truthy \<^verbatim>\<open>objectURL\<close>:
  \<^verbatim>\<open>f'\n<a href="{object_url}">View on Met website</a>'\<close>.\<close>

definition url_line :: "(json \<Rightarrow> string) \<Rightarrow> json \<Rightarrow> string" where
  "url_line R object_url =
     nl @ ''<a href='' @ [CHR 0x22] @ py_str R object_url @ [CHR 0x22]
        @ ''>View on Met website</a>''"

definition format_art_info :: "(json \<Rightarrow> string) \<Rightarrow> pydict \<Rightarrow> string" where
  "format_art_info R object_data =
     (let lines = info_lines R object_data;
          object_url = dict_get object_data ''objectURL'';
          lines = (if py_truthy object_url then lines @ [url_line R object_url] else lines)
      in py_join nl lines)"

text \<open>What \<^verbatim>\<open>s[0]\<close> and \<^verbatim>\<open>random.choice(s)\<close> see of a string are its code points:
  a lead byte with the continuation bytes (\<^verbatim>\<open>10xxxxxx\<close>) that follow it.\<close>

definition utf8_cont :: "char \<Rightarrow> bool" where
  "utf8_cont c = (128 \<le> (of_char c :: nat) \<and> (of_char c :: nat) < 192)"

function utf8_chars :: "string \<Rightarrow> string list" where
  "utf8_chars [] = []"
| "utf8_chars (c # cs) = (c # takeWhile utf8_cont cs) # utf8_chars (dropWhile utf8_cont cs)"
  by pat_completeness auto
termination
  by (relation "measure length") (auto simp: less_Suc_eq_le length_dropWhile_le)

section \<open>Exceptions\<close>

text \<open>The exception classes that matter to the two \<^verbatim>\<open>except\<close> clauses of the source.
  \<open>ClientResponseError\<close> (with the HTTP status) and \<open>ContentTypeError\<close> are subclasses of
  \<^verbatim>\<open>aiohttp.ClientError\<close>; \<open>ClientError\<close> stands for every other subclass (connection,
  DNS and TLS failures). \<open>JSONDecodeError\<close> is the \<^verbatim>\<open>ValueError\<close> that
  \<^verbatim>\<open>response.json()\<close> raises on a malformed body. \<open>CancelledError\<close> derives from
  \<^verbatim>\<open>BaseException\<close>, all others from \<^verbatim>\<open>Exception\<close>.\<close>

datatype exn =
    ClientError
  | ClientResponseError nat
  | ContentTypeError
  | TimeoutError
  | JSONDecodeError
  | OSError
  | AttributeError
  | TypeError
  | KeyError
  | IndexError
  | TelegramError
  | CancelledError

fun is_ClientError :: "exn \<Rightarrow> bool" where
  "is_ClientError ClientError = True"
| "is_ClientError (ClientResponseError status) = True"
| "is_ClientError ContentTypeError = True"
| "is_ClientError e = False"

text \<open>\<^verbatim>\<open>except (aiohttp.ClientError, asyncio.TimeoutError)\<close> in \<^verbatim>\<open>fetch_json\<close>.\<close>

definition fetch_catches :: "exn \<Rightarrow> bool" where
  "fetch_catches e = (is_ClientError e \<or> e = TimeoutError)"

text \<open>\<^verbatim>\<open>except Exception\<close> in \<^verbatim>\<open>get_met_art_item\<close>.\<close>

definition is_Exception :: "exn \<Rightarrow> bool" where
  "is_Exception e = (e \<noteq> CancelledError)"

section \<open>Image selection\<close>

text \<open>\<^verbatim>\<open>v[0]\<close>: the first entry of a list, the first character of a string;
  a dictionary from JSON has no key \<open>0\<close>, a number, a boolean and \<^verbatim>\<open>None\<close> cannot be
  subscripted.\<close>

fun subscript0 :: "json \<Rightarrow> exn + json" where
  "subscript0 (JList []) = Inl IndexError"
| "subscript0 (JList (x # xs)) = Inr x"
| "subscript0 (JStr s) = (case utf8_chars s of [] \<Rightarrow> Inl IndexError | c # cs \<Rightarrow> Inr (JStr c))"
| "subscript0 (JObj d) = Inl KeyError"
| "subscript0 v = Inl TypeError"

text \<open>\<^verbatim>\<open>a or b or (c or [None])[0]\<close>: \<^verbatim>\<open>or\<close> yields its first truthy operand.\<close>

definition get_best_image_url :: "pydict \<Rightarrow> exn + json" where
  "get_best_image_url object_data =
     (if py_truthy (dict_get object_data ''primaryImageSmall'')
      then Inr (dict_get object_data ''primaryImageSmall'')
      else if py_truthy (dict_get object_data ''primaryImage'')
      then Inr (dict_get object_data ''primaryImage'')
      else subscript0
             (if py_truthy (dict_get object_data ''additionalImages'')
              then dict_get object_data ''additionalImages''
              else JList [JNull]))"

section \<open>The outside world\<close>

text \<open>What a handler does to the outside, in the order it does it.\<close>

datatype parse_mode = HTML

datatype event =
    HttpGet string "(string \<times> string) list option"
  | LogInfo string
  | LogError string exn
  | SendChatAction int string
  | ReplyPhoto json string "parse_mode option"
  | ReplyText string "parse_mode option"
  | Sleep nat

text \<open>What the outside answers. A GET either fails before a response arrives, or
  gives a status together with what \<^verbatim>\<open>response.json()\<close> would do with the body.
  \<open>ssl_context\<close> is the exception of \<^verbatim>\<open>ssl.create_default_context\<close>, if it raises;
  \<open>chat_action\<close>, \<open>send_photo\<close> and \<open>send_text\<close> those of the three Telegram calls.
  \<open>seed\<close> is the randomness \<^verbatim>\<open>random.choice\<close> consumes, \<open>py_repr\<close> the interpreter's
  \<^verbatim>\<open>repr\<close>.\<close>

datatype http_reply =
    NoReply exn
  | Reply nat "exn + json"

record env =
  py_repr :: "json \<Rightarrow> string"
  ssl_context :: "exn option"
  http :: "string \<Rightarrow> (string \<times> string) list option \<Rightarrow> http_reply"
  seed :: nat
  chat_action :: "string \<Rightarrow> exn option"
  send_photo :: "json \<Rightarrow> string \<Rightarrow> exn option"
  send_text :: "string \<Rightarrow> parse_mode option \<Rightarrow> exn option"

record update =
  chat_id :: int
  user_full_name :: string
  user_id :: int
  message_text :: string

text \<open>A call returns a value or raises, and leaves its events behind.\<close>

type_synonym 'a io = "(exn + 'a) \<times> event list"

definition outcome :: "exn option \<Rightarrow> exn + unit" where
  "outcome r = (case r of None \<Rightarrow> Inr () | Some e \<Rightarrow> Inl e)"

definition send_chat_action :: "env \<Rightarrow> int \<Rightarrow> string \<Rightarrow> unit io" where
  "send_chat_action w chat action = (outcome (chat_action w action), [SendChatAction chat action])"

definition reply_text :: "env \<Rightarrow> string \<Rightarrow> parse_mode option \<Rightarrow> unit io" where
  "reply_text w txt pm = (outcome (send_text w txt pm), [ReplyText txt pm])"

definition reply_photo :: "env \<Rightarrow> json \<Rightarrow> string \<Rightarrow> parse_mode option \<Rightarrow> unit io" where
  "reply_photo w photo caption pm = (outcome (send_photo w photo caption), [ReplyPhoto photo caption pm])"

section \<open>HTTP fetcher\<close>

text \<open>\<^verbatim>\<open>response.raise_for_status()\<close> of aiohttp raises \<^verbatim>\<open>ClientResponseError\<close> when the
  status is 400 or more (its \<^verbatim>\<open>ok\<close> is \<^verbatim>\<open>400 > status\<close>).\<close>

definition raise_for_status :: "nat \<Rightarrow> exn option" where
  "raise_for_status status = (if 400 \<le> status then Some (ClientResponseError status) else None)"

text \<open>The body of the \<^verbatim>\<open>try\<close>: the request, \<^verbatim>\<open>raise_for_status\<close>, then
  \<^verbatim>\<open>response.json()\<close>.\<close>

definition try_body :: "env \<Rightarrow> string \<Rightarrow> (string \<times> string) list option \<Rightarrow> exn + json" where
  "try_body w url params =
     (case http w url params of
        NoReply e \<Rightarrow> Inl e
      | Reply status body \<Rightarrow>
          (case raise_for_status status of Some e \<Rightarrow> Inl e | None \<Rightarrow> body))"

definition fetch_json :: "env \<Rightarrow> string \<Rightarrow> (string \<times> string) list option \<Rightarrow> json io" where
  "fetch_json w url params =
     (case ssl_context w of
        Some e \<Rightarrow> (Inl e, [])
      | None \<Rightarrow>
          (case try_body w url params of
             Inr v \<Rightarrow> (Inr v, [HttpGet url params])
           | Inl e \<Rightarrow>
               if fetch_catches e
               then (Inr JNull, [HttpGet url params, LogError ''API request failed: '' e])
               else (Inl e, [HttpGet url params])))"

section \<open>Artwork selector\<close>

definition MET_BASE_URL :: string where
  "MET_BASE_URL = ''https://collectionapi.metmuseum.org/public/collection/v1''"

definition search_params :: "(string \<times> string) list" where
  "search_params = [(''hasImages'', ''true''), (''isPublicDomain'', ''true''), (''q'', ''*'')]"

text \<open>\<^verbatim>\<open>random.choice(seq)\<close>: \<^verbatim>\<open>seq[i]\<close> for a random \<open>i\<close> below \<^verbatim>\<open>len(seq)\<close>. A number,
  a boolean and \<^verbatim>\<open>None\<close> have no length; a dictionary from JSON has no integer key.\<close>

fun random_choice :: "nat \<Rightarrow> json \<Rightarrow> exn + json" where
  "random_choice r (JList xs) = (if xs = [] then Inl IndexError else Inr (xs ! (r mod length xs)))"
| "random_choice r (JStr s) =
     (if s = [] then Inl IndexError
      else Inr (JStr (utf8_chars s ! (r mod length (utf8_chars s)))))"
| "random_choice r (JObj d) = (if d = [] then Inl IndexError else Inl KeyError)"
| "random_choice r v = Inl TypeError"

definition get_random_met_object :: "env \<Rightarrow> json io" where
  "get_random_met_object w =
     (case fetch_json w (MET_BASE_URL @ ''/search'') (Some search_params) of
        (Inl e, t) \<Rightarrow> (Inl e, t)
      | (Inr search_data, t) \<Rightarrow>
          if \<not> py_truthy search_data then (Inr JNull, t)
          else (case search_data of
                  JObj d \<Rightarrow>
                    if \<not> py_truthy (dict_get d ''objectIDs'') then (Inr JNull, t)
                    else (case random_choice (seed w) (dict_get d ''objectIDs'') of
                            Inl e \<Rightarrow> (Inl e, t)
                          | Inr random_id \<Rightarrow>
                              (case fetch_json w
                                      (MET_BASE_URL @ ''/objects/'' @ py_str (py_repr w) random_id)
                                      None of
                                 (r, t') \<Rightarrow> (r, t @ t')))
                | _ \<Rightarrow> (Inl AttributeError, t)))"

section \<open>Message dispatcher\<close>

definition failure_text :: string where
  "failure_text =
     [CHR 0xF0, CHR 0x9F, CHR 0x9A, CHR 0xAB]
     @ '' Couldn't fetch artwork. Please try again later.''"

definition image_available_text :: "string \<Rightarrow> string \<Rightarrow> string" where
  "image_available_text image_url caption =
     [CHR 0xF0, CHR 0x9F, CHR 0x96, CHR 0xBC, CHR 0xEF, CHR 0xB8, CHR 0x8F]
     @ '' Image available at: '' @ image_url @ nl @ nl @ caption"

definition no_image_text :: "string \<Rightarrow> string" where
  "no_image_text caption =
     [CHR 0xE2, CHR 0x9D, CHR 0x8C]
     @ '' No image available for this artwork'' @ nl @ nl @ caption"

text \<open>The part of \<^verbatim>\<open>get_met_art_item\<close> after the artwork has been fetched.\<close>

definition send_result :: "env \<Rightarrow> json \<Rightarrow> unit io" where
  "send_result w met_object =
     (if \<not> py_truthy met_object then reply_text w failure_text None
      else (case met_object of
              JObj d \<Rightarrow>
                (case get_best_image_url d of
                   Inl e \<Rightarrow> (Inl e, [])
                 | Inr image_url \<Rightarrow>
                     (let caption = format_art_info (py_repr w) d in
                      if py_truthy image_url
                      then (case reply_photo w image_url caption (Some HTML) of
                              (Inr u, t) \<Rightarrow> (Inr u, t)
                            | (Inl e, t) \<Rightarrow>
                                if is_Exception e
                                then (case reply_text w
                                             (image_available_text (py_str (py_repr w) image_url) caption)
                                             (Some HTML) of
                                        (r, t') \<Rightarrow> (r, t @ [LogError ''Failed to send image: '' e] @ t'))
                                else (Inl e, t))
                      else reply_text w (no_image_text caption) (Some HTML)))
            | _ \<Rightarrow> (Inl AttributeError, [])))"

text \<open>\<^verbatim>\<open>f"Art request from {user.full_name} ({user.id})"\<close>.\<close>

definition art_request_message :: "update \<Rightarrow> string" where
  "art_request_message u =
     ''Art request from '' @ user_full_name u @ '' ('' @ show_int (user_id u) @ '')''"

definition get_met_art_item :: "env \<Rightarrow> update \<Rightarrow> unit io" where
  "get_met_art_item w u =
     (let t0 = [LogInfo (art_request_message u)] in
      case send_chat_action w (chat_id u) ''upload_photo'' of
        (Inl e, t1) \<Rightarrow> (Inl e, t0 @ t1)
      | (Inr _, t1) \<Rightarrow>
          (case get_random_met_object w of
             (Inl e, t2) \<Rightarrow> (Inl e, t0 @ t1 @ t2)
           | (Inr met_object, t2) \<Rightarrow>
               (case send_result w met_object of (r, t3) \<Rightarrow> (r, t0 @ t1 @ t2 @ t3))))"

text \<open>\<^verbatim>\<open>asyncio.sleep(0.5)\<close> is the event \<open>Sleep 500\<close>, in milliseconds.\<close>

definition echo :: "env \<Rightarrow> update \<Rightarrow> unit io" where
  "echo w u =
     (case send_chat_action w (chat_id u) ''typing'' of
        (Inl e, t1) \<Rightarrow> (Inl e, t1)
      | (Inr _, t1) \<Rightarrow>
          (case reply_text w (message_text u) None of
             (r, t2) \<Rightarrow> (r, t1 @ [Sleep 500] @ t2)))"

section \<open>Reference data for the statements\<close>

text \<open>The fixed list of the specification: each label with the key of the API record
  it is read from.\<close>

definition caption_fields :: "(string \<times> string) list" where
  "caption_fields =
     [(''Title'', ''title''), (''Artist'', ''artistDisplayName''), (''Date'', ''objectDate''),
      (''Culture'', ''culture''), (''Period'', ''period''), (''Medium'', ''medium''),
      (''Country'', ''country'')]"

text \<open>The lines of a text, \<^verbatim>\<open>s.split("\n")\<close>: what stands between two newlines, so
  that the empty text has one empty line.\<close>

fun split_nl :: "string \<Rightarrow> string list" where
  "split_nl [] = [[]]"
| "split_nl (c # cs) =
     (if c = CHR 0x0A then [] # split_nl cs
      else (case split_nl cs of [] \<Rightarrow> [[c]] | l # ls \<Rightarrow> (c # l) # ls))"

text \<open>The end-to-end scenario of the specification: the search returns the identifiers
  101 and 202, every detail request returns a record with a title and a small primary
  image, and no call fails. The examples below vary it field by field. None of them
  contains a float, a list or a dictionary where \<^verbatim>\<open>str\<close> is applied, so what
  \<open>py_repr\<close> returns plays no part in them.\<close>

definition world0 :: env where
  "world0 =
     \<lparr> py_repr = (\<lambda>v. []),
       ssl_context = None,
       http = (\<lambda>url params.
                 if url = MET_BASE_URL @ ''/search''
                 then Reply 200 (Inr (JObj [(''total'', JInt 2),
                                            (''objectIDs'', JList [JInt 101, JInt 202])]))
                 else Reply 200 (Inr (JObj [(''title'', JStr ''Starry Night''),
                                            (''primaryImageSmall'', JStr ''http://img/1.jpg'')]))),
       seed = 0,
       chat_action = (\<lambda>action. None),
       send_photo = (\<lambda>photo caption. None),
       send_text = (\<lambda>txt pm. None) \<rparr>"

definition update0 :: update where
  "update0 = \<lparr> chat_id = 7, user_full_name = ''Ann'', user_id = 42, message_text = ''hello'' \<rparr>"

text \<open>The search times out.\<close>

definition world_timeout :: env where
  "world_timeout = world0 \<lparr> http := (\<lambda>url params. NoReply TimeoutError) \<rparr>"

text \<open>The search finds nothing: the API then answers \<^verbatim>\<open>{"total": 0, "objectIDs": null}\<close>.\<close>

definition world_empty :: env where
  "world_empty =
     world0 \<lparr> http := (\<lambda>url params.
                 Reply 200 (Inr (JObj [(''total'', JInt 0), (''objectIDs'', JNull)]))) \<rparr>"



text \<open>The detail record has a title and no image.\<close>

definition world_no_image :: env where
  "world_no_image =
     world0 \<lparr> http := (\<lambda>url params.
                 if url = MET_BASE_URL @ ''/search''
                 then Reply 200 (Inr (JObj [(''total'', JInt 2),
                                            (''objectIDs'', JList [JInt 101, JInt 202])]))
                 else Reply 200 (Inr (JObj [(''title'', JStr ''Starry Night'')]))) \<rparr>"

text \<open>The detail record is the empty dictionary.\<close>

definition world_empty_record :: env where
  "world_empty_record =
     world0 \<lparr> http := (\<lambda>url params.
                 if url = MET_BASE_URL @ ''/search''
                 then Reply 200 (Inr (JObj [(''total'', JInt 2),
                                            (''objectIDs'', JList [JInt 101, JInt 202])]))
                 else Reply 200 (Inr (JObj []))) \<rparr>"

text \<open>Telegram rejects the photo.\<close>

definition world_photo_rejected :: env where
  "world_photo_rejected = world0 \<lparr> send_photo := (\<lambda>photo caption. Some TelegramError) \<rparr>"

section \<open>Helper lemmas\<close>

subsection \<open>The formatter reads a record only through its keys\<close>

lemma dict_get_cong: "map_of d' = map_of d \<Longrightarrow> dict_get d' k = dict_get d k"
  by (simp add: dict_get_def)

lemma fields_dict_caption_fields:
  "fields_dict d = map (\<lambda>(label, key). (label, dict_get d key)) caption_fields"
  by (simp add: fields_dict_def caption_fields_def)

lemma info_lines_caption_fields:
  "info_lines R d =
     map (\<lambda>(label, key). info_line R label (dict_get d key))
       (filter (\<lambda>(label, key). py_truthy (dict_get d key)) caption_fields)"
  by (simp add: info_lines_def fields_dict_caption_fields filter_map o_def split_def)

lemma format_art_info_unfold:
  "format_art_info R d =
     py_join nl (info_lines R d @
       (if py_truthy (dict_get d ''objectURL'') then [url_line R (dict_get d ''objectURL'')] else []))"
  by (simp add: format_art_info_def Let_def)

lemma info_lines_view:
  assumes "\<And>k. py_truthy (dict_get d' k) = py_truthy (dict_get d k)"
    and "\<And>k. py_truthy (dict_get d k) \<Longrightarrow> dict_get d' k = dict_get d k"
  shows "info_lines R d' = info_lines R d"
proof -
  have "filter (\<lambda>(label, key). py_truthy (dict_get d' key)) caption_fields
      = filter (\<lambda>(label, key). py_truthy (dict_get d key)) caption_fields"
    using assms(1) by simp
  moreover have "map (\<lambda>(label, key). info_line R label (dict_get d' key))
                   (filter (\<lambda>(label, key). py_truthy (dict_get d key)) caption_fields)
      = map (\<lambda>(label, key). info_line R label (dict_get d key))
                   (filter (\<lambda>(label, key). py_truthy (dict_get d key)) caption_fields)"
    by (rule map_cong) (auto simp: assms(2))
  ultimately show ?thesis by (simp add: info_lines_caption_fields)
qed

lemma format_art_info_view:
  assumes "\<And>k. py_truthy (dict_get d' k) = py_truthy (dict_get d k)"
    and "\<And>k. py_truthy (dict_get d k) \<Longrightarrow> dict_get d' k = dict_get d k"
  shows "format_art_info R d' = format_art_info R d"
  using info_lines_view [of d' d R, OF assms] assms
  by (simp add: format_art_info_unfold)

lemma get_best_image_url_view:
  assumes "\<And>k. py_truthy (dict_get d' k) = py_truthy (dict_get d k)"
    and "\<And>k. py_truthy (dict_get d k) \<Longrightarrow> dict_get d' k = dict_get d k"
  shows "get_best_image_url d' = get_best_image_url d"
  using assms by (simp add: get_best_image_url_def)

lemma removed_key_view:
  assumes "\<not> py_truthy (dict_get d k)" and "map_of d' = (map_of d)(k := None)"
  shows "py_truthy (dict_get d' k') = py_truthy (dict_get d k')"
    and "py_truthy (dict_get d k') \<Longrightarrow> dict_get d' k' = dict_get d k'"
  using assms by (auto simp: dict_get_def)

lemma map_filter_concat:
  "map (\<lambda>(a, b). f a b) (filter (\<lambda>(a, b). P a b) xs)
     = concat (map (\<lambda>(a, b). if P a b then [f a b] else []) xs)"
  by (induction xs) auto

lemma py_truthy_iff:
  "py_truthy v \<longleftrightarrow>
     \<not> (v = JNull \<or> v = JBool False \<or> v = JInt 0
        \<or> (\<exists>w. v = JFloat w \<and> w AND 0x7FFFFFFFFFFFFFFF = 0)
        \<or> v = JStr [] \<or> v = JList [] \<or> v = JObj [])"
  by (cases v) auto

subsection \<open>What \<open>escape\<close> leaves behind\<close>

lemma escape_char_safe: "set (escape_char c) \<inter> {CHR ''<'', CHR ''>'', CHR 0x22, CHR 0x27} = {}"
  by (simp add: escape_char_def)

lemma escape_safe: "set (escape s) \<inter> {CHR ''<'', CHR ''>'', CHR 0x22, CHR 0x27} = {}"
  using escape_char_safe by (induction s) (auto simp: escape_def)

subsection \<open>Lines of a text\<close>

lemma split_nl_nonempty: "split_nl s \<noteq> []"
  by (induction s) (auto split: list.splits)

lemma split_nl_append: "split_nl (a @ CHR 0x0A # b) = split_nl a @ split_nl b"
  using split_nl_nonempty by (induction a) (auto split: list.splits)

lemma split_nl_single: "CHR 0x0A \<notin> set x \<Longrightarrow> split_nl x = [x]"
  by (induction x) auto

lemma split_nl_join:
  "xs \<noteq> [] \<Longrightarrow> split_nl (py_join nl xs) = concat (map split_nl xs)"
proof (induction xs rule: induct_list012)
  case (3 x y zs)
  then show ?case
    by (simp add: nl_def split_nl_append)
qed simp_all

lemma concat_split_nl:
  "\<forall>x \<in> set xs. split_nl x = [x] \<Longrightarrow> concat (map split_nl xs) = xs"
  by (induction xs) simp_all

lemma escape_newline: "CHR 0x0A \<in> set (escape s) \<longleftrightarrow> CHR 0x0A \<in> set s"
  by (induction s) (auto simp: escape_def escape_char_def split: if_splits)

lemma caption_labels: "(label, key) \<in> set caption_fields \<Longrightarrow> CHR 0x0A \<notin> set label"
  by (auto simp: caption_fields_def)

lemma info_lines_split:
  assumes "\<forall>(label, key) \<in> set caption_fields.
             py_truthy (dict_get d key) \<longrightarrow> CHR 0x0A \<notin> set (py_str R (dict_get d key))"
  shows "concat (map split_nl (info_lines R d)) = info_lines R d"
proof -
  have "split_nl x = [x]" if "x \<in> set (info_lines R d)" for x
  proof -
    from that obtain label key where
      m: "(label, key) \<in> set caption_fields" and t: "py_truthy (dict_get d key)"
      and x: "x = info_line R label (dict_get d key)"
      by (auto simp: info_lines_caption_fields)
    have "CHR 0x0A \<notin> set (py_str R (dict_get d key))"
      using assms m t by auto
    then have "CHR 0x0A \<notin> set x"
      using caption_labels [OF m] by (simp add: x info_line_def escape_newline)
    then show ?thesis by (rule split_nl_single)
  qed
  then show ?thesis
    by (intro concat_split_nl) simp
qed

lemma format_art_info_split:
  assumes some: "\<exists>(label, key) \<in> set caption_fields. py_truthy (dict_get d key)"
    and vals: "\<forall>(label, key) \<in> set caption_fields.
             py_truthy (dict_get d key) \<longrightarrow> CHR 0x0A \<notin> set (py_str R (dict_get d key))"
    and url: "CHR 0x0A \<notin> set (py_str R (dict_get d ''objectURL''))"
  shows "split_nl (format_art_info R d) =
           info_lines R d
           @ (if py_truthy (dict_get d ''objectURL'')
              then [[], ''<a href='' @ [CHR 0x22] @ py_str R (dict_get d ''objectURL'') @ [CHR 0x22]
                          @ ''>View on Met website</a>'']
              else [])"
proof -
  have ne: "info_lines R d \<noteq> []"
    using some by (auto simp: info_lines_caption_fields filter_empty_conv)
  have link: "split_nl (url_line R (dict_get d ''objectURL''))
      = [[], ''<a href='' @ [CHR 0x22] @ py_str R (dict_get d ''objectURL'') @ [CHR 0x22]
                          @ ''>View on Met website</a>'']"
    using url by (simp add: url_line_def nl_def split_nl_single)
  show ?thesis
    using ne link info_lines_split [OF vals]
    by (simp add: format_art_info_unfold split_nl_join)
qed

subsection \<open>Events of the fetcher and the selector\<close>

lemma fetch_json_events:
  "ev \<in> set (snd (fetch_json w url p)) \<Longrightarrow>
     ev = HttpGet url p \<or> (\<exists>e. ev = LogError ''API request failed: '' e)"
  by (auto simp: fetch_json_def split: option.splits sum.splits if_splits)

lemma get_random_met_object_events:
  assumes "ev \<in> set (snd (get_random_met_object w))"
  shows "(\<exists>url p. ev = HttpGet url p) \<or> (\<exists>e. ev = LogError ''API request failed: '' e)"
proof -
  obtain r t where s: "fetch_json w (MET_BASE_URL @ ''/search'') (Some search_params) = (r, t)"
    by (cases "fetch_json w (MET_BASE_URL @ ''/search'') (Some search_params)")
  have t: "ev \<in> set t \<Longrightarrow> ?thesis"
    using fetch_json_events [of ev w "MET_BASE_URL @ ''/search''" "Some search_params"] s by auto
  have t': "fetch_json w url None = (r', tt) \<Longrightarrow> ev \<in> set tt \<Longrightarrow> ?thesis" for url r' tt
    using fetch_json_events [of ev w url None] by auto
  show ?thesis
    using assms s t t'
    by (auto simp: get_random_met_object_def split: sum.splits json.splits if_splits prod.splits)
qed

lemma get_best_image_url_nonempty:
  "get_best_image_url d = Inr image_url \<Longrightarrow> py_truthy image_url \<Longrightarrow> d \<noteq> []"
  by (auto simp: get_best_image_url_def dict_get_def)

lemma get_met_art_item_fetched:
  assumes "chat_action w ''upload_photo'' = None"
    and "get_random_met_object w = (Inr met_object, t)"
    and "send_result w met_object = (r, t')"
  shows "get_met_art_item w u =
           (r, LogInfo (art_request_message u) # SendChatAction (chat_id u) ''upload_photo'' # t @ t')"
  using assms by (simp add: get_met_art_item_def send_chat_action_def outcome_def)

subsection \<open>The example worlds\<close>

lemma world0_fetched:
  "get_random_met_object (world0 \<lparr> send_photo := f \<rparr>)
     = (Inr (JObj [(''title'', JStr ''Starry Night''), (''primaryImageSmall'', JStr ''http://img/1.jpg'')]),
        [HttpGet (MET_BASE_URL @ ''/search'') (Some search_params),
         HttpGet (MET_BASE_URL @ ''/objects/101'') None])"
  by (simp add: get_random_met_object_def fetch_json_def try_body_def raise_for_status_def
      world0_def dict_get_def show_int_def show_nat.simps digit_char_def)

lemma world_no_image_fetched:
  "get_random_met_object world_no_image
     = (Inr (JObj [(''title'', JStr ''Starry Night'')]),
        [HttpGet (MET_BASE_URL @ ''/search'') (Some search_params),
         HttpGet (MET_BASE_URL @ ''/objects/101'') None])"
  by (simp add: get_random_met_object_def fetch_json_def try_body_def raise_for_status_def
      world_no_image_def world0_def dict_get_def show_int_def show_nat.simps digit_char_def)

lemma world_empty_record_fetched:
  "get_random_met_object world_empty_record
     = (Inr (JObj []),
        [HttpGet (MET_BASE_URL @ ''/search'') (Some search_params),
         HttpGet (MET_BASE_URL @ ''/objects/101'') None])"
  by (simp add: get_random_met_object_def fetch_json_def try_body_def raise_for_status_def
      world_empty_record_def world0_def dict_get_def show_int_def show_nat.simps digit_char_def)

lemma update0_message: "art_request_message update0 = ''Art request from Ann (42)''"
  by (simp add: art_request_message_def update0_def show_int_def show_nat.simps digit_char_def)

lemma update0_chat: "chat_id update0 = 7"
  by (simp add: update0_def)

section \<open>Presentation formatter: caption\<close>

text \<open>
  C1, as the code has it. For every artwork record, \<open>format_art_info\<close> returns the
  entries, joined by a newline, of exactly the fields of the fixed list Title, Artist,
  Date, Culture, Period, Medium, Country whose value is truthy (not \<^verbatim>\<open>None\<close>, not
  empty, not zero, not \<^verbatim>\<open>False\<close>), in the order of that list; each entry is the label
  in bold, a colon, a space and the escaped \<^verbatim>\<open>str\<close> of the value; a field that is
  absent or falsy has no entry; the link entry follows when \<^verbatim>\<open>objectURL\<close> is truthy.
  When at least one field of the list is truthy and neither the text of a truthy field
  nor that of the object URL holds a newline, the lines of the result are exactly
  these entries, one line each, followed for a truthy \<^verbatim>\<open>objectURL\<close> by an empty line and
  the link. The result is the same for two records that store the same values under
  the same keys, in whatever order.
\<close>

theorem format_art_info_lines:
  "format_art_info R d =
     py_join nl
       (map (\<lambda>(label, key). ''<b>'' @ label @ ''</b>: '' @ escape (py_str R (dict_get d key)))
          (filter (\<lambda>(label, key). py_truthy (dict_get d key)) caption_fields)
        @ (if py_truthy (dict_get d ''objectURL'')
           then [url_line R (dict_get d ''objectURL'')] else []))
   \<and> ((\<exists>(label, key) \<in> set caption_fields. py_truthy (dict_get d key))
        \<and> (\<forall>(label, key) \<in> set caption_fields.
              py_truthy (dict_get d key) \<longrightarrow> CHR 0x0A \<notin> set (py_str R (dict_get d key)))
        \<and> CHR 0x0A \<notin> set (py_str R (dict_get d ''objectURL''))
      \<longrightarrow> split_nl (format_art_info R d) =
            map (\<lambda>(label, key). ''<b>'' @ label @ ''</b>: '' @ escape (py_str R (dict_get d key)))
              (filter (\<lambda>(label, key). py_truthy (dict_get d key)) caption_fields)
            @ (if py_truthy (dict_get d ''objectURL'')
               then [[], ''<a href='' @ [CHR 0x22] @ py_str R (dict_get d ''objectURL'')
                           @ [CHR 0x22] @ ''>View on Met website</a>'']
               else []))
   \<and> (map_of d' = map_of d \<longrightarrow> format_art_info R d' = format_art_info R d)"
proof (intro conjI impI)
  show "format_art_info R d =
     py_join nl
       (map (\<lambda>(label, key). ''<b>'' @ label @ ''</b>: '' @ escape (py_str R (dict_get d key)))
          (filter (\<lambda>(label, key). py_truthy (dict_get d key)) caption_fields)
        @ (if py_truthy (dict_get d ''objectURL'')
           then [url_line R (dict_get d ''objectURL'')] else []))"
    by (simp only: format_art_info_unfold info_lines_caption_fields info_line_def)
next
  assume "(\<exists>(label, key) \<in> set caption_fields. py_truthy (dict_get d key))
        \<and> (\<forall>(label, key) \<in> set caption_fields.
              py_truthy (dict_get d key) \<longrightarrow> CHR 0x0A \<notin> set (py_str R (dict_get d key)))
        \<and> CHR 0x0A \<notin> set (py_str R (dict_get d ''objectURL''))"
  then have "split_nl (format_art_info R d) =
           info_lines R d
           @ (if py_truthy (dict_get d ''objectURL'')
              then [[], ''<a href='' @ [CHR 0x22] @ py_str R (dict_get d ''objectURL'') @ [CHR 0x22]
                          @ ''>View on Met website</a>'']
              else [])"
    by (intro format_art_info_split) simp_all
  then show "split_nl (format_art_info R d) =
            map (\<lambda>(label, key). ''<b>'' @ label @ ''</b>: '' @ escape (py_str R (dict_get d key)))
              (filter (\<lambda>(label, key). py_truthy (dict_get d key)) caption_fields)
            @ (if py_truthy (dict_get d ''objectURL'')
               then [[], ''<a href='' @ [CHR 0x22] @ py_str R (dict_get d ''objectURL'')
                           @ [CHR 0x22] @ ''>View on Met website</a>'']
               else [])"
    by (simp only: info_lines_caption_fields info_line_def)
next
  assume "map_of d' = map_of d"
  then have "\<And>k. dict_get d' k = dict_get d k" by (rule dict_get_cong)
  then show "format_art_info R d' = format_art_info R d"
    by (intro format_art_info_view) simp_all
qed

text \<open>Four keys stored in reverse order, one value empty and one with markup.\<close>

theorem format_art_info_lines_witness:
  "map_of [(''objectURL'', JStr ''http://met/1''), (''objectDate'', JStr ''1889''),
           (''artistDisplayName'', JStr []), (''title'', JStr ''Starry <Night>'')]
     = map_of [(''title'', JStr ''Starry <Night>''), (''artistDisplayName'', JStr []),
               (''objectDate'', JStr ''1889''), (''objectURL'', JStr ''http://met/1'')]
   \<and> split_nl (format_art_info (\<lambda>v. [])
         [(''objectURL'', JStr ''http://met/1''), (''objectDate'', JStr ''1889''),
          (''artistDisplayName'', JStr []), (''title'', JStr ''Starry <Night>'')])
       = [''<b>Title</b>: Starry &lt;Night&gt;'', ''<b>Date</b>: 1889'', [],
          ''<a href='' @ [CHR 0x22] @ ''http://met/1'' @ [CHR 0x22] @ ''>View on Met website</a>'']"
proof -
  let ?d = "[(''title'', JStr ''Starry <Night>''), (''artistDisplayName'', JStr []),
             (''objectDate'', JStr ''1889''), (''objectURL'', JStr ''http://met/1'')]"
  let ?d' = "[(''objectURL'', JStr ''http://met/1''), (''objectDate'', JStr ''1889''),
              (''artistDisplayName'', JStr []), (''title'', JStr ''Starry <Night>'')]"
  have m: "map_of ?d' = map_of ?d"
    by (auto simp: fun_eq_iff)
  have h: "(\<exists>(label, key) \<in> set caption_fields. py_truthy (dict_get ?d key))
        \<and> (\<forall>(label, key) \<in> set caption_fields.
              py_truthy (dict_get ?d key) \<longrightarrow> CHR 0x0A \<notin> set (py_str (\<lambda>v. []) (dict_get ?d key)))
        \<and> CHR 0x0A \<notin> set (py_str (\<lambda>v. []) (dict_get ?d ''objectURL''))"
    by (simp add: caption_fields_def dict_get_def)
  note t = format_art_info_lines [where d = ?d and d' = ?d' and R = "\<lambda>v. []"]
  have e: "format_art_info (\<lambda>v. []) ?d' = format_art_info (\<lambda>v. []) ?d"
    using t m by blast
  have "split_nl (format_art_info (\<lambda>v. []) ?d) =
            map (\<lambda>(label, key). ''<b>'' @ label @ ''</b>: ''
                   @ escape (py_str (\<lambda>v. []) (dict_get ?d key)))
              (filter (\<lambda>(label, key). py_truthy (dict_get ?d key)) caption_fields)
            @ (if py_truthy (dict_get ?d ''objectURL'')
               then [[], ''<a href='' @ [CHR 0x22] @ py_str (\<lambda>v. []) (dict_get ?d ''objectURL'')
                           @ [CHR 0x22] @ ''>View on Met website</a>'']
               else [])"
    using t h by blast
  then have "split_nl (format_art_info (\<lambda>v. []) ?d)
       = [''<b>Title</b>: Starry &lt;Night&gt;'', ''<b>Date</b>: 1889'', [],
          ''<a href='' @ [CHR 0x22] @ ''http://met/1'' @ [CHR 0x22] @ ''>View on Met website</a>'']"
    by (simp add: caption_fields_def dict_get_def escape_def escape_char_def)
  then show ?thesis
    using m e by simp
qed

text \<open>A record whose date is the number 0: the date, though present, has no line. A
  record whose title holds a newline: its one field gives two lines, the second of
  which is not of the form label, colon, value.\<close>

theorem format_art_info_counterexample:
  "format_art_info (\<lambda>v. []) [(''title'', JStr ''Year Zero''), (''objectDate'', JInt 0)]
     = ''<b>Title</b>: Year Zero''
   \<and> split_nl (format_art_info (\<lambda>v. []) [(''title'', JStr (''Sun'' @ nl @ ''rise''))])
     = [''<b>Title</b>: Sun'', ''rise'']"
  by (simp add: format_art_info_def info_lines_def fields_dict_def dict_get_def info_line_def
      escape_def escape_char_def nl_def)

section \<open>Presentation formatter: escaping\<close>

text \<open>
  C2. Every value interpolated into the output of \<open>format_art_info\<close> is escaped,
  the object URL inside the trailing hyperlink included. The field values are
  (\<open>info_lines\<close> applies \<open>escape\<close>); the URL is not: \<open>url_line\<close> writes it as it is.
  For the record with the title \<^verbatim>\<open>Sunrise\<close> and the object URL
  \<^verbatim>\<open>https://x/"><b>\<close> the quote and the tag of the URL reach the text unescaped.
\<close>

theorem format_art_info_url_unescaped:
  \<open>format_art_info R [(''title'', JStr ''Sunrise''), (''objectURL'', JStr ''https://x/"><b>'')]
     = ''<b>Title</b>: Sunrise'' @ nl @ nl @ ''<a href="https://x/"><b>">View on Met website</a>''\<close>
  by (simp add: format_art_info_def info_lines_def fields_dict_def dict_get_def info_line_def
      escape_def escape_char_def nl_def url_line_def)

section \<open>Presentation formatter: image selection\<close>

text \<open>
  C3, as the code has it. \<open>get_best_image_url\<close> returns \<^verbatim>\<open>primaryImageSmall\<close> when
  it is truthy, whatever the other two hold; otherwise \<^verbatim>\<open>primaryImage\<close> when that is
  truthy; otherwise the first entry of \<^verbatim>\<open>additionalImages\<close> when that is a non-empty
  list; otherwise, \<^verbatim>\<open>additionalImages\<close> being absent or empty, \<^verbatim>\<open>None\<close>. It returns
  \<^verbatim>\<open>None\<close> exactly when the first two are falsy and \<^verbatim>\<open>additionalImages\<close> is falsy or
  a list whose first entry is \<^verbatim>\<open>None\<close>.
\<close>

theorem get_best_image_url_fallback:
  "(py_truthy (dict_get d ''primaryImageSmall'') \<longrightarrow>
      get_best_image_url d = Inr (dict_get d ''primaryImageSmall''))
   \<and> (\<not> py_truthy (dict_get d ''primaryImageSmall'') \<and> py_truthy (dict_get d ''primaryImage'') \<longrightarrow>
      get_best_image_url d = Inr (dict_get d ''primaryImage''))
   \<and> (\<not> py_truthy (dict_get d ''primaryImageSmall'') \<and> \<not> py_truthy (dict_get d ''primaryImage'')
        \<and> dict_get d ''additionalImages'' = JList (x # xs) \<longrightarrow>
      get_best_image_url d = Inr x)
   \<and> (\<not> py_truthy (dict_get d ''primaryImageSmall'') \<and> \<not> py_truthy (dict_get d ''primaryImage'')
        \<and> \<not> py_truthy (dict_get d ''additionalImages'') \<longrightarrow>
      get_best_image_url d = Inr JNull)
   \<and> (get_best_image_url d = Inr JNull \<longleftrightarrow>
        \<not> py_truthy (dict_get d ''primaryImageSmall'') \<and> \<not> py_truthy (dict_get d ''primaryImage'')
        \<and> (\<not> py_truthy (dict_get d ''additionalImages'')
             \<or> (\<exists>ys. dict_get d ''additionalImages'' = JList (JNull # ys))))"
proof -
  have sub: "py_truthy v \<Longrightarrow> subscript0 v = Inr JNull \<longleftrightarrow> (\<exists>ys. v = JList (JNull # ys))" for v
  proof (cases v)
    case (JList zs)
    then show "py_truthy v \<Longrightarrow> ?thesis" by (cases zs) auto
  qed (simp_all split: list.splits)
  show ?thesis
    using sub [of "dict_get d ''additionalImages''"]
    by (auto simp: get_best_image_url_def)
qed

text \<open>One record for each level of the fallback, and one without any image.\<close>

theorem get_best_image_url_fallback_witness:
  "get_best_image_url
     [(''primaryImageSmall'', JStr ''http://img/1.jpg''), (''primaryImage'', JStr ''http://img/2.jpg''),
      (''additionalImages'', JList [JStr ''http://img/3.jpg''])]
     = Inr (JStr ''http://img/1.jpg'')
   \<and> get_best_image_url
       [(''primaryImage'', JStr ''http://img/2.jpg''),
        (''additionalImages'', JList [JStr ''http://img/3.jpg''])]
     = Inr (JStr ''http://img/2.jpg'')
   \<and> get_best_image_url
       [(''additionalImages'', JList [JStr ''http://img/3.jpg'', JStr ''http://img/4.jpg''])]
     = Inr (JStr ''http://img/3.jpg'')
   \<and> get_best_image_url [(''title'', JStr ''Starry Night'')] = Inr JNull"
  using
    get_best_image_url_fallback
      [where d = "[(''primaryImageSmall'', JStr ''http://img/1.jpg''),
                   (''primaryImage'', JStr ''http://img/2.jpg''),
                   (''additionalImages'', JList [JStr ''http://img/3.jpg''])]"]
    get_best_image_url_fallback
      [where d = "[(''primaryImage'', JStr ''http://img/2.jpg''),
                   (''additionalImages'', JList [JStr ''http://img/3.jpg''])]"]
    get_best_image_url_fallback
      [where d = "[(''additionalImages'', JList [JStr ''http://img/3.jpg'', JStr ''http://img/4.jpg''])]"
         and x = "JStr ''http://img/3.jpg''" and xs = "[JStr ''http://img/4.jpg'']"]
    get_best_image_url_fallback [where d = "[(''title'', JStr ''Starry Night'')]"]
  by (simp add: dict_get_def)

text \<open>A small primary image that is present and not \<^verbatim>\<open>None\<close>, the empty string the
  API stores for a missing image, is not returned: the primary image is.\<close>

theorem get_best_image_url_counterexample:
  "dict_get [(''primaryImageSmall'', JStr []), (''primaryImage'', JStr ''http://img/2.jpg'')]
      ''primaryImageSmall'' \<noteq> JNull
   \<and> get_best_image_url
         [(''primaryImageSmall'', JStr []), (''primaryImage'', JStr ''http://img/2.jpg'')]
       = Inr (JStr ''http://img/2.jpg'')"
  by (simp add: get_best_image_url_def dict_get_def)

section \<open>Artwork selector\<close>

text \<open>
  C4. When the search fetch yields a falsy result (\<^verbatim>\<open>None\<close> among them) or a
  dictionary whose \<^verbatim>\<open>objectIDs\<close> is falsy, \<open>get_random_met_object\<close> returns \<^verbatim>\<open>None\<close>
  having done nothing but the search fetch: no request other than the search request
  is issued. Conversely a request to any other URL is issued only after the search
  fetch has returned a dictionary with truthy \<^verbatim>\<open>objectIDs\<close>, and comes after the
  events of that fetch.
\<close>

theorem get_random_met_object_no_identifiers:
  "(fetch_json w (MET_BASE_URL @ ''/search'') (Some search_params) = (Inr search_data, t)
      \<and> (\<not> py_truthy search_data
           \<or> (\<exists>d. search_data = JObj d \<and> \<not> py_truthy (dict_get d ''objectIDs'')))
     \<longrightarrow> get_random_met_object w = (Inr JNull, t)
          \<and> (\<forall>url p. HttpGet url p \<in> set t \<longrightarrow>
                url = MET_BASE_URL @ ''/search'' \<and> p = Some search_params))
   \<and> (HttpGet url p \<in> set (snd (get_random_met_object w)) \<and> url \<noteq> MET_BASE_URL @ ''/search''
     \<longrightarrow> (\<exists>d t t'. fetch_json w (MET_BASE_URL @ ''/search'') (Some search_params) = (Inr (JObj d), t)
            \<and> py_truthy (dict_get d ''objectIDs'')
            \<and> snd (get_random_met_object w) = t @ t' \<and> HttpGet url p \<in> set t'))"
proof (intro conjI impI)
  assume a: "fetch_json w (MET_BASE_URL @ ''/search'') (Some search_params) = (Inr search_data, t)
      \<and> (\<not> py_truthy search_data
           \<or> (\<exists>d. search_data = JObj d \<and> \<not> py_truthy (dict_get d ''objectIDs'')))"
  then show "get_random_met_object w = (Inr JNull, t)"
    by (auto simp: get_random_met_object_def)
  show "\<forall>url p. HttpGet url p \<in> set t \<longrightarrow>
                url = MET_BASE_URL @ ''/search'' \<and> p = Some search_params"
    using a fetch_json_events [of _ w "MET_BASE_URL @ ''/search''" "Some search_params"]
    by fastforce
next
  assume b: "HttpGet url p \<in> set (snd (get_random_met_object w)) \<and> url \<noteq> MET_BASE_URL @ ''/search''"
  obtain r t where s: "fetch_json w (MET_BASE_URL @ ''/search'') (Some search_params) = (r, t)"
    by (cases "fetch_json w (MET_BASE_URL @ ''/search'') (Some search_params)")
  have nt: "HttpGet url p \<notin> set t"
    using b s fetch_json_events [of "HttpGet url p" w "MET_BASE_URL @ ''/search''" "Some search_params"]
    by auto
  show "\<exists>d t t'. fetch_json w (MET_BASE_URL @ ''/search'') (Some search_params) = (Inr (JObj d), t)
            \<and> py_truthy (dict_get d ''objectIDs'')
            \<and> snd (get_random_met_object w) = t @ t' \<and> HttpGet url p \<in> set t'"
    using b s nt
    by (auto simp: get_random_met_object_def split: sum.splits json.splits if_splits prod.splits)
qed

text \<open>The empty search, and the scenario in which the detail of object 101 is fetched.\<close>

theorem get_random_met_object_no_identifiers_witness:
  "fetch_json world_empty (MET_BASE_URL @ ''/search'') (Some search_params)
     = (Inr (JObj [(''total'', JInt 0), (''objectIDs'', JNull)]),
        [HttpGet (MET_BASE_URL @ ''/search'') (Some search_params)])
   \<and> \<not> py_truthy (dict_get [(''total'', JInt 0), (''objectIDs'', JNull)] ''objectIDs'')
   \<and> get_random_met_object world_empty
       = (Inr JNull, [HttpGet (MET_BASE_URL @ ''/search'') (Some search_params)])
   \<and> HttpGet (MET_BASE_URL @ ''/objects/101'') None \<in> set (snd (get_random_met_object world0))
   \<and> (\<exists>d t t'. fetch_json world0 (MET_BASE_URL @ ''/search'') (Some search_params) = (Inr (JObj d), t)
          \<and> py_truthy (dict_get d ''objectIDs'')
          \<and> snd (get_random_met_object world0) = t @ t'
          \<and> HttpGet (MET_BASE_URL @ ''/objects/101'') None \<in> set t')"
proof -
  have f: "fetch_json world_empty (MET_BASE_URL @ ''/search'') (Some search_params)
     = (Inr (JObj [(''total'', JInt 0), (''objectIDs'', JNull)]),
        [HttpGet (MET_BASE_URL @ ''/search'') (Some search_params)])"
    by (simp add: fetch_json_def try_body_def raise_for_status_def world_empty_def world0_def)
  have n: "\<not> py_truthy (dict_get [(''total'', JInt 0), (''objectIDs'', JNull)] ''objectIDs'')"
    by (simp add: dict_get_def)
  have g: "HttpGet (MET_BASE_URL @ ''/objects/101'') None \<in> set (snd (get_random_met_object world0))"
    by (simp add: get_random_met_object_def fetch_json_def try_body_def raise_for_status_def
        world0_def dict_get_def show_int_def show_nat.simps digit_char_def)
  have u: "MET_BASE_URL @ ''/objects/101'' \<noteq> MET_BASE_URL @ ''/search''"
    by simp
  show ?thesis
    using f n g u
      get_random_met_object_no_identifiers
        [where w = world_empty
           and search_data = "JObj [(''total'', JInt 0), (''objectIDs'', JNull)]"
           and t = "[HttpGet (MET_BASE_URL @ ''/search'') (Some search_params)]"]
      get_random_met_object_no_identifiers
        [where w = world0 and url = "MET_BASE_URL @ ''/objects/101''" and p = None]
    by blast
qed

section \<open>HTTP fetcher\<close>




section \<open>Message dispatcher: the art command\<close>

text \<open>
  C6. Whenever the selector yields \<^verbatim>\<open>None\<close>, whatever events \<open>t\<close> led to it (a failed
  search, an empty identifier set or a failed detail fetch), the handler replies with
  the one fixed failure text, without parse mode; the reply is the last thing it does,
  its outcome is the handler's, and no photo is sent.
\<close>

theorem get_met_art_item_no_artwork:
  assumes "chat_action w ''upload_photo'' = None"
    and "get_random_met_object w = (Inr JNull, t)"
  shows "get_met_art_item w u =
           (outcome (send_text w failure_text None),
            LogInfo (art_request_message u) # SendChatAction (chat_id u) ''upload_photo'' # t
              @ [ReplyText failure_text None])
         \<and> (\<forall>photo caption pm. ReplyPhoto photo caption pm \<notin> set (snd (get_met_art_item w u)))
         \<and> failure_text
             = [CHR 0xF0, CHR 0x9F, CHR 0x9A, CHR 0xAB]
               @ '' Couldn't fetch artwork. Please try again later.''"
proof -
  have run: "get_met_art_item w u =
           (outcome (send_text w failure_text None),
            LogInfo (art_request_message u) # SendChatAction (chat_id u) ''upload_photo'' # t
              @ [ReplyText failure_text None])"
    using assms by (simp add: get_met_art_item_fetched send_result_def reply_text_def)
  have "ReplyPhoto photo caption pm \<notin> set t" for photo caption pm
    using get_random_met_object_events [of "ReplyPhoto photo caption pm" w] assms(2) by auto
  then show ?thesis
    using run by (simp add: failure_text_def)
qed

text \<open>The search times out: one request, the log entry, the failure text.\<close>

theorem get_met_art_item_no_artwork_witness:
  "chat_action world_timeout ''upload_photo'' = None
   \<and> get_random_met_object world_timeout
       = (Inr JNull, [HttpGet (MET_BASE_URL @ ''/search'') (Some search_params),
                      LogError ''API request failed: '' TimeoutError])
   \<and> get_met_art_item world_timeout update0
       = (Inr (),
          [LogInfo ''Art request from Ann (42)'', SendChatAction 7 ''upload_photo'',
           HttpGet (MET_BASE_URL @ ''/search'') (Some search_params),
           LogError ''API request failed: '' TimeoutError,
           ReplyText failure_text None])"
proof -
  have c: "chat_action world_timeout ''upload_photo'' = None"
    by (simp add: world_timeout_def world0_def)
  have g: "get_random_met_object world_timeout
       = (Inr JNull, [HttpGet (MET_BASE_URL @ ''/search'') (Some search_params),
                      LogError ''API request failed: '' TimeoutError])"
    by (simp add: get_random_met_object_def fetch_json_def try_body_def fetch_catches_def
        world_timeout_def world0_def)
  have m: "art_request_message update0 = ''Art request from Ann (42)''"
    by (simp add: art_request_message_def update0_def show_int_def show_nat.simps digit_char_def)
  have s: "outcome (send_text world_timeout failure_text None) = Inr ()"
    by (simp add: outcome_def world_timeout_def world0_def)
  show ?thesis
    using get_met_art_item_no_artwork [OF c g, of update0] c g m s
    by (simp add: update0_def)
qed

text \<open>
  C7. When an image URL is present and sending the photo raises an \<^verbatim>\<open>Exception\<close>, the
  handler logs it and replies with a text message made of a fixed prefix, the image
  URL as it is, an empty line and the caption; the handler's outcome is that of this
  reply, not the failure of the photo.
\<close>

theorem get_met_art_item_photo_fallback:
  assumes "chat_action w ''upload_photo'' = None"
    and "get_random_met_object w = (Inr (JObj d), t)"
    and "get_best_image_url d = Inr image_url"
    and "py_truthy image_url"
    and "send_photo w image_url (format_art_info (py_repr w) d) = Some e"
    and "is_Exception e"
  shows "get_met_art_item w u =
           (outcome (send_text w
                       (image_available_text (py_str (py_repr w) image_url)
                          (format_art_info (py_repr w) d))
                       (Some HTML)),
            LogInfo (art_request_message u) # SendChatAction (chat_id u) ''upload_photo'' # t
              @ [ReplyPhoto image_url (format_art_info (py_repr w) d) (Some HTML),
                 LogError ''Failed to send image: '' e,
                 ReplyText (image_available_text (py_str (py_repr w) image_url)
                              (format_art_info (py_repr w) d))
                   (Some HTML)])
         \<and> image_available_text (py_str (py_repr w) image_url) (format_art_info (py_repr w) d)
             = [CHR 0xF0, CHR 0x9F, CHR 0x96, CHR 0xBC, CHR 0xEF, CHR 0xB8, CHR 0x8F]
               @ '' Image available at: '' @ py_str (py_repr w) image_url @ nl @ nl
               @ format_art_info (py_repr w) d"
proof -
  have "d \<noteq> []"
    using assms(3,4) by (rule get_best_image_url_nonempty)
  then have "send_result w (JObj d) =
           (outcome (send_text w
                       (image_available_text (py_str (py_repr w) image_url)
                          (format_art_info (py_repr w) d))
                       (Some HTML)),
            [ReplyPhoto image_url (format_art_info (py_repr w) d) (Some HTML),
             LogError ''Failed to send image: '' e,
             ReplyText (image_available_text (py_str (py_repr w) image_url)
                          (format_art_info (py_repr w) d))
               (Some HTML)])"
    using assms(3-6)
    by (simp add: send_result_def reply_photo_def reply_text_def outcome_def Let_def)
  then show ?thesis
    using assms(1,2) by (simp add: get_met_art_item_fetched image_available_text_def)
qed

text \<open>The scenario of the specification with a photo that Telegram rejects.\<close>

theorem get_met_art_item_photo_fallback_witness:
  "send_photo world_photo_rejected (JStr ''http://img/1.jpg'') ''<b>Title</b>: Starry Night''
     = Some TelegramError
   \<and> is_Exception TelegramError
   \<and> get_met_art_item world_photo_rejected update0
       = (Inr (),
          [LogInfo ''Art request from Ann (42)'', SendChatAction 7 ''upload_photo'',
           HttpGet (MET_BASE_URL @ ''/search'') (Some search_params),
           HttpGet (MET_BASE_URL @ ''/objects/101'') None,
           ReplyPhoto (JStr ''http://img/1.jpg'') ''<b>Title</b>: Starry Night'' (Some HTML),
           LogError ''Failed to send image: '' TelegramError,
           ReplyText ([CHR 0xF0, CHR 0x9F, CHR 0x96, CHR 0xBC, CHR 0xEF, CHR 0xB8, CHR 0x8F]
                      @ '' Image available at: http://img/1.jpg'' @ nl @ nl
                      @ ''<b>Title</b>: Starry Night'')
             (Some HTML)])"
proof -
  let ?d = "[(''title'', JStr ''Starry Night''), (''primaryImageSmall'', JStr ''http://img/1.jpg'')]"
  have c: "chat_action world_photo_rejected ''upload_photo'' = None"
    by (simp add: world_photo_rejected_def world0_def)
  have g: "get_random_met_object world_photo_rejected
     = (Inr (JObj ?d),
        [HttpGet (MET_BASE_URL @ ''/search'') (Some search_params),
         HttpGet (MET_BASE_URL @ ''/objects/101'') None])"
    unfolding world_photo_rejected_def by (rule world0_fetched)
  have i: "get_best_image_url ?d = Inr (JStr ''http://img/1.jpg'')"
    by (simp add: get_best_image_url_def dict_get_def)
  have t: "py_truthy (JStr ''http://img/1.jpg'')"
    by simp
  have f: "format_art_info (py_repr world_photo_rejected) ?d = ''<b>Title</b>: Starry Night''"
    by (simp add: format_art_info_def info_lines_def fields_dict_def dict_get_def info_line_def
        escape_def escape_char_def)
  have p: "send_photo world_photo_rejected (JStr ''http://img/1.jpg'')
             (format_art_info (py_repr world_photo_rejected) ?d) = Some TelegramError"
    by (simp add: world_photo_rejected_def world0_def)
  have x: "is_Exception TelegramError"
    by (simp add: is_Exception_def)
  have s: "send_text world_photo_rejected body pm = None" for body pm
    by (simp add: world_photo_rejected_def world0_def)
  show ?thesis
    using get_met_art_item_photo_fallback [OF c g i t p x, of update0] p x
    by (simp add: f s outcome_def update0_message update0_chat)
qed

text \<open>
  C8, as the code has it. When the selector returns a non-empty record and the image
  selection yields a falsy value, the handler replies, in HTML parse mode, with the
  notice \<^verbatim>\<open>No image available for this artwork\<close> (after a cross mark), an empty line,
  and then the caption. The empty record is falsy: for it the handler replies with
  the failure text, without parse mode, as it does when the selector yields \<^verbatim>\<open>None\<close>.
\<close>

theorem get_met_art_item_no_image:
  assumes "chat_action w ''upload_photo'' = None"
    and "get_random_met_object w = (Inr (JObj d), t)"
    and "get_best_image_url d = Inr image_url"
    and "\<not> py_truthy image_url"
  shows "(d \<noteq> [] \<longrightarrow>
           get_met_art_item w u =
             (outcome (send_text w (no_image_text (format_art_info (py_repr w) d)) (Some HTML)),
              LogInfo (art_request_message u) # SendChatAction (chat_id u) ''upload_photo'' # t
                @ [ReplyText (no_image_text (format_art_info (py_repr w) d)) (Some HTML)]))
         \<and> (d = [] \<longrightarrow>
           get_met_art_item w u =
             (outcome (send_text w failure_text None),
              LogInfo (art_request_message u) # SendChatAction (chat_id u) ''upload_photo'' # t
                @ [ReplyText failure_text None]))
         \<and> no_image_text (format_art_info (py_repr w) d)
             = [CHR 0xE2, CHR 0x9D, CHR 0x8C] @ '' No image available for this artwork''
               @ nl @ nl @ format_art_info (py_repr w) d"
proof (intro conjI impI)
  assume "d \<noteq> []"
  then have "send_result w (JObj d) =
           (outcome (send_text w (no_image_text (format_art_info (py_repr w) d)) (Some HTML)),
            [ReplyText (no_image_text (format_art_info (py_repr w) d)) (Some HTML)])"
    using assms(3,4) by (simp add: send_result_def reply_text_def Let_def)
  then show "get_met_art_item w u =
             (outcome (send_text w (no_image_text (format_art_info (py_repr w) d)) (Some HTML)),
              LogInfo (art_request_message u) # SendChatAction (chat_id u) ''upload_photo'' # t
                @ [ReplyText (no_image_text (format_art_info (py_repr w) d)) (Some HTML)])"
    using assms(1,2) by (simp add: get_met_art_item_fetched)
next
  assume "d = []"
  then have "send_result w (JObj d) =
           (outcome (send_text w failure_text None), [ReplyText failure_text None])"
    by (simp add: send_result_def reply_text_def)
  then show "get_met_art_item w u =
             (outcome (send_text w failure_text None),
              LogInfo (art_request_message u) # SendChatAction (chat_id u) ''upload_photo'' # t
                @ [ReplyText failure_text None])"
    using assms(1,2) by (simp add: get_met_art_item_fetched)
next
  show "no_image_text (format_art_info (py_repr w) d)
             = [CHR 0xE2, CHR 0x9D, CHR 0x8C] @ '' No image available for this artwork''
               @ nl @ nl @ format_art_info (py_repr w) d"
    by (simp add: no_image_text_def)
qed

text \<open>A record with a title and no image, and the empty record.\<close>

theorem get_met_art_item_no_image_witness:
  "get_best_image_url [(''title'', JStr ''Starry Night'')] = Inr JNull
   \<and> get_best_image_url [] = Inr JNull
   \<and> \<not> py_truthy JNull
   \<and> get_met_art_item world_no_image update0
       = (Inr (),
          [LogInfo ''Art request from Ann (42)'', SendChatAction 7 ''upload_photo'',
           HttpGet (MET_BASE_URL @ ''/search'') (Some search_params),
           HttpGet (MET_BASE_URL @ ''/objects/101'') None,
           ReplyText (no_image_text ''<b>Title</b>: Starry Night'') (Some HTML)])
   \<and> get_met_art_item world_empty_record update0
       = (Inr (),
          [LogInfo ''Art request from Ann (42)'', SendChatAction 7 ''upload_photo'',
           HttpGet (MET_BASE_URL @ ''/search'') (Some search_params),
           HttpGet (MET_BASE_URL @ ''/objects/101'') None,
           ReplyText failure_text None])"
proof -
  let ?d = "[(''title'', JStr ''Starry Night'')]"
  have c: "chat_action world_no_image ''upload_photo'' = None"
    by (simp add: world_no_image_def world0_def)
  have c': "chat_action world_empty_record ''upload_photo'' = None"
    by (simp add: world_empty_record_def world0_def)
  have i: "get_best_image_url ?d = Inr JNull"
    by (simp add: get_best_image_url_def dict_get_def)
  have i': "get_best_image_url [] = Inr JNull"
    by (simp add: get_best_image_url_def dict_get_def)
  have t: "\<not> py_truthy JNull"
    by simp
  have f: "format_art_info (py_repr world_no_image) ?d = ''<b>Title</b>: Starry Night''"
    by (simp add: format_art_info_def info_lines_def fields_dict_def dict_get_def info_line_def
        escape_def escape_char_def)
  have s: "send_text world_no_image body pm = None" for body pm
    by (simp add: world_no_image_def world0_def)
  have s': "send_text world_empty_record body pm = None" for body pm
    by (simp add: world_empty_record_def world0_def)
  have a: "get_met_art_item world_no_image update0
       = (Inr (),
          [LogInfo ''Art request from Ann (42)'', SendChatAction 7 ''upload_photo'',
           HttpGet (MET_BASE_URL @ ''/search'') (Some search_params),
           HttpGet (MET_BASE_URL @ ''/objects/101'') None,
           ReplyText (no_image_text ''<b>Title</b>: Starry Night'') (Some HTML)])"
    using get_met_art_item_no_image [OF c world_no_image_fetched i t, of update0]
    by (simp add: f s outcome_def update0_message update0_chat)
  have b: "get_met_art_item world_empty_record update0
       = (Inr (),
          [LogInfo ''Art request from Ann (42)'', SendChatAction 7 ''upload_photo'',
           HttpGet (MET_BASE_URL @ ''/search'') (Some search_params),
           HttpGet (MET_BASE_URL @ ''/objects/101'') None,
           ReplyText failure_text None])"
    using get_met_art_item_no_image [OF c' world_empty_record_fetched i' t, of update0]
    by (simp add: s' outcome_def update0_message update0_chat)
  show ?thesis
    using i i' t a b by simp
qed

text \<open>For that record the caption is \<^verbatim>\<open><b>Title</b>: Starry Night\<close>, and the body of
  the message is longer than the caption: the notice and an empty line come first.\<close>

theorem get_met_art_item_counterexample:
  "format_art_info (py_repr world_no_image) [(''title'', JStr ''Starry Night'')]
     = ''<b>Title</b>: Starry Night''
   \<and> get_met_art_item world_no_image update0
       = (Inr (),
          [LogInfo ''Art request from Ann (42)'', SendChatAction 7 ''upload_photo'',
           HttpGet (MET_BASE_URL @ ''/search'') (Some search_params),
           HttpGet (MET_BASE_URL @ ''/objects/101'') None,
           ReplyText ([CHR 0xE2, CHR 0x9D, CHR 0x8C] @ '' No image available for this artwork''
                      @ nl @ nl @ ''<b>Title</b>: Starry Night'')
             (Some HTML)])"
proof -
  have f: "format_art_info R [(''title'', JStr ''Starry Night'')] = ''<b>Title</b>: Starry Night''" for R
    by (simp add: format_art_info_def info_lines_def fields_dict_def dict_get_def info_line_def
        escape_def escape_char_def)
  have i: "get_best_image_url [(''title'', JStr ''Starry Night'')] = Inr JNull"
    by (simp add: get_best_image_url_def dict_get_def)
  have s: "send_text world_no_image body pm = None" for body pm
    by (simp add: world_no_image_def world0_def)
  have c: "chat_action world_no_image ''upload_photo'' = None"
    by (simp add: world_no_image_def world0_def)
  have "send_result world_no_image (JObj [(''title'', JStr ''Starry Night'')])
          = (Inr (), [ReplyText (no_image_text ''<b>Title</b>: Starry Night'') (Some HTML)])"
    by (simp add: send_result_def i f s reply_text_def outcome_def)
  then show ?thesis
    using get_met_art_item_fetched [OF c world_no_image_fetched, of _ _ update0] f
    by (simp add: update0_message update0_chat no_image_text_def)
qed

section \<open>Message dispatcher: echo\<close>

text \<open>
  C9. Once the typing indicator has been sent, the echo handler waits the fixed delay
  and replies with exactly the text of the message, without parse mode: these three
  events, in this order, and nothing else. Whatever happens, a reply of the echo
  handler carries exactly the received text.
\<close>

theorem echo_replies_text:
  "(chat_action w ''typing'' = None \<longrightarrow>
      echo w u = (outcome (send_text w (message_text u) None),
                  [SendChatAction (chat_id u) ''typing'', Sleep 500, ReplyText (message_text u) None]))
   \<and> (\<forall>txt pm. ReplyText txt pm \<in> set (snd (echo w u)) \<longrightarrow> txt = message_text u \<and> pm = None)"
  by (auto simp: echo_def send_chat_action_def reply_text_def outcome_def split: option.splits)

text \<open>The message \<^verbatim>\<open>hello\<close>.\<close>

theorem echo_replies_text_witness:
  "chat_action world0 ''typing'' = None
   \<and> echo world0 update0
       = (Inr (), [SendChatAction 7 ''typing'', Sleep 500, ReplyText ''hello'' None])
   \<and> ReplyText ''hello'' None \<in> set (snd (echo world0 update0))"
proof -
  have c: "chat_action world0 ''typing'' = None"
    by (simp add: world0_def)
  have e: "echo world0 update0
       = (Inr (), [SendChatAction 7 ''typing'', Sleep 500, ReplyText ''hello'' None])"
    using echo_replies_text [of world0 update0] c
    by (simp add: outcome_def world0_def update0_def)
  show ?thesis
    using c e by simp
qed

section \<open>Truthiness decides presence\<close>

text \<open>
  C10. A value is falsy exactly when it is \<^verbatim>\<open>None\<close>, \<^verbatim>\<open>False\<close>, the number 0 (or the
  float 0.0), the empty string, the empty list or the empty dictionary.
  \<open>format_art_info\<close> goes through the fixed list and gives each field either nothing,
  when its value is falsy, or the one entry made of the label and the escaped \<^verbatim>\<open>str\<close>
  of the value. \<open>get_best_image_url\<close> returns the small primary image when it is
  truthy; when it is falsy (the empty string as well as absent) the primary image, if
  that is truthy; when both are falsy the first entry of a non-empty list of
  additional images; and \<^verbatim>\<open>None\<close> when that list is empty or absent too. Removing a
  key whose value is falsy changes neither the caption nor the image.
\<close>

theorem falsy_like_absent:
  "(py_truthy v \<longleftrightarrow>
      \<not> (v = JNull \<or> v = JBool False \<or> v = JInt 0
         \<or> (\<exists>w. v = JFloat w \<and> w AND 0x7FFFFFFFFFFFFFFF = 0)
         \<or> v = JStr [] \<or> v = JList [] \<or> v = JObj []))
   \<and> format_art_info R d =
       py_join nl
         (concat (map (\<lambda>(label, key).
                    if py_truthy (dict_get d key)
                    then [''<b>'' @ label @ ''</b>: '' @ escape (py_str R (dict_get d key))]
                    else [])
                  caption_fields)
          @ (if py_truthy (dict_get d ''objectURL'')
             then [url_line R (dict_get d ''objectURL'')] else []))
   \<and> (py_truthy (dict_get d ''primaryImageSmall'') \<longrightarrow>
        get_best_image_url d = Inr (dict_get d ''primaryImageSmall''))
   \<and> (\<not> py_truthy (dict_get d ''primaryImageSmall'') \<and> py_truthy (dict_get d ''primaryImage'') \<longrightarrow>
        get_best_image_url d = Inr (dict_get d ''primaryImage''))
   \<and> (\<not> py_truthy (dict_get d ''primaryImageSmall'') \<and> \<not> py_truthy (dict_get d ''primaryImage'')
        \<and> dict_get d ''additionalImages'' = JList (x # xs) \<longrightarrow>
        get_best_image_url d = Inr x)
   \<and> (\<not> py_truthy (dict_get d ''primaryImageSmall'') \<and> \<not> py_truthy (dict_get d ''primaryImage'')
        \<and> \<not> py_truthy (dict_get d ''additionalImages'') \<longrightarrow>
        get_best_image_url d = Inr JNull)
   \<and> (\<not> py_truthy (dict_get d k) \<and> map_of d' = (map_of d)(k := None) \<longrightarrow>
        format_art_info R d' = format_art_info R d
        \<and> get_best_image_url d' = get_best_image_url d)"
proof -
  have fmt: "format_art_info R d =
       py_join nl
         (concat (map (\<lambda>(label, key).
                    if py_truthy (dict_get d key)
                    then [''<b>'' @ label @ ''</b>: '' @ escape (py_str R (dict_get d key))]
                    else [])
                  caption_fields)
          @ (if py_truthy (dict_get d ''objectURL'')
             then [url_line R (dict_get d ''objectURL'')] else []))"
    by (simp only: format_art_info_unfold info_lines_caption_fields info_line_def
        map_filter_concat)
  have img: "(py_truthy (dict_get d ''primaryImageSmall'') \<longrightarrow>
        get_best_image_url d = Inr (dict_get d ''primaryImageSmall''))
   \<and> (\<not> py_truthy (dict_get d ''primaryImageSmall'') \<and> py_truthy (dict_get d ''primaryImage'') \<longrightarrow>
        get_best_image_url d = Inr (dict_get d ''primaryImage''))
   \<and> (\<not> py_truthy (dict_get d ''primaryImageSmall'') \<and> \<not> py_truthy (dict_get d ''primaryImage'')
        \<and> dict_get d ''additionalImages'' = JList (x # xs) \<longrightarrow>
        get_best_image_url d = Inr x)
   \<and> (\<not> py_truthy (dict_get d ''primaryImageSmall'') \<and> \<not> py_truthy (dict_get d ''primaryImage'')
        \<and> \<not> py_truthy (dict_get d ''additionalImages'') \<longrightarrow>
        get_best_image_url d = Inr JNull)"
    by (simp add: get_best_image_url_def)
  have rem: "format_art_info R d' = format_art_info R d \<and> get_best_image_url d' = get_best_image_url d"
    if f: "\<not> py_truthy (dict_get d k)" and m: "map_of d' = (map_of d)(k := None)"
  proof
    show "format_art_info R d' = format_art_info R d"
      by (rule format_art_info_view) (rule removed_key_view [OF f m])+
    show "get_best_image_url d' = get_best_image_url d"
      by (rule get_best_image_url_view) (rule removed_key_view [OF f m])+
  qed
  show ?thesis
    using py_truthy_iff [of v] fmt img rem by blast
qed

text \<open>A record with a date 0, a period \<^verbatim>\<open>False\<close>, an empty small primary image and an
  empty list of additional images: only the title has an entry and the primary image
  is chosen; without a primary image nothing is.\<close>

theorem falsy_like_absent_witness:
  "\<not> py_truthy (dict_get [(''title'', JStr ''Starry Night''), (''objectDate'', JInt 0),
                            (''period'', JBool False), (''primaryImageSmall'', JStr []),
                            (''primaryImage'', JStr ''http://img/2.jpg''),
                            (''additionalImages'', JList [])] ''objectDate'')
   \<and> map_of [(''title'', JStr ''Starry Night''), (''period'', JBool False),
              (''primaryImageSmall'', JStr []), (''primaryImage'', JStr ''http://img/2.jpg''),
              (''additionalImages'', JList [])]
       = (map_of [(''title'', JStr ''Starry Night''), (''objectDate'', JInt 0),
                  (''period'', JBool False), (''primaryImageSmall'', JStr []),
                  (''primaryImage'', JStr ''http://img/2.jpg''),
                  (''additionalImages'', JList [])]) (''objectDate'' := None)
   \<and> format_art_info (\<lambda>v. [])
         [(''title'', JStr ''Starry Night''), (''objectDate'', JInt 0),
          (''period'', JBool False), (''primaryImageSmall'', JStr []),
          (''primaryImage'', JStr ''http://img/2.jpg''), (''additionalImages'', JList [])]
       = ''<b>Title</b>: Starry Night''
   \<and> format_art_info (\<lambda>v. [])
         [(''title'', JStr ''Starry Night''), (''period'', JBool False),
          (''primaryImageSmall'', JStr []), (''primaryImage'', JStr ''http://img/2.jpg''),
          (''additionalImages'', JList [])]
       = ''<b>Title</b>: Starry Night''
   \<and> get_best_image_url
         [(''title'', JStr ''Starry Night''), (''objectDate'', JInt 0),
          (''period'', JBool False), (''primaryImageSmall'', JStr []),
          (''primaryImage'', JStr ''http://img/2.jpg''), (''additionalImages'', JList [])]
       = Inr (JStr ''http://img/2.jpg'')
   \<and> get_best_image_url
         [(''title'', JStr ''Starry Night''), (''primaryImageSmall'', JStr []),
          (''additionalImages'', JList [])]
       = Inr JNull"
proof -
  let ?d = "[(''title'', JStr ''Starry Night''), (''objectDate'', JInt 0),
             (''period'', JBool False), (''primaryImageSmall'', JStr []),
             (''primaryImage'', JStr ''http://img/2.jpg''), (''additionalImages'', JList [])]"
  let ?d' = "[(''title'', JStr ''Starry Night''), (''period'', JBool False),
              (''primaryImageSmall'', JStr []), (''primaryImage'', JStr ''http://img/2.jpg''),
              (''additionalImages'', JList [])]"
  let ?e = "[(''title'', JStr ''Starry Night''), (''primaryImageSmall'', JStr []),
             (''additionalImages'', JList [])]"
  have f: "\<not> py_truthy (dict_get ?d ''objectDate'')"
    by (simp add: dict_get_def)
  have m: "map_of ?d' = (map_of ?d) (''objectDate'' := None)"
    by (auto simp: fun_eq_iff)
  note t = falsy_like_absent
             [where d = ?d and d' = ?d' and k = "''objectDate''" and R = "\<lambda>v. []"
                and v = "JStr []" and x = JNull and xs = "[]"]
  note t' = falsy_like_absent
             [where d = ?e and d' = ?e and k = "''objectDate''" and R = "\<lambda>v. []"
                and v = "JStr []" and x = JNull and xs = "[]"]
  have "format_art_info (\<lambda>v. []) ?d =
       py_join nl
         (concat (map (\<lambda>(label, key).
                    if py_truthy (dict_get ?d key)
                    then [''<b>'' @ label @ ''</b>: '' @ escape (py_str (\<lambda>v. []) (dict_get ?d key))]
                    else [])
                  caption_fields)
          @ (if py_truthy (dict_get ?d ''objectURL'')
             then [url_line (\<lambda>v. []) (dict_get ?d ''objectURL'')] else []))"
    using t by blast
  then have a: "format_art_info (\<lambda>v. []) ?d = ''<b>Title</b>: Starry Night''"
    by (simp add: caption_fields_def dict_get_def escape_def escape_char_def)
  have b: "format_art_info (\<lambda>v. []) ?d' = format_art_info (\<lambda>v. []) ?d"
    using t f m by blast
  have s: "\<not> py_truthy (dict_get ?d ''primaryImageSmall'')"
    and p: "py_truthy (dict_get ?d ''primaryImage'')"
    by (simp_all add: dict_get_def)
  have "get_best_image_url ?d = Inr (dict_get ?d ''primaryImage'')"
    using t s p by blast
  then have c: "get_best_image_url ?d = Inr (JStr ''http://img/2.jpg'')"
    by (simp add: dict_get_def)
  have "\<not> py_truthy (dict_get ?e ''primaryImageSmall'')"
    and "\<not> py_truthy (dict_get ?e ''primaryImage'')"
    and "\<not> py_truthy (dict_get ?e ''additionalImages'')"
    by (simp_all add: dict_get_def)
  then have e: "get_best_image_url ?e = Inr JNull"
    using t' by blast
  show ?thesis
    using f m a b c e by simp
qed

end
